theory Spec2Isabelle
  imports Main
begin

section \<open>The select item of \<^verbatim>\<open>select/select-item.tsx\<close>\<close>

text \<open>
  The file defines one component hook, \<^verbatim>\<open>useSelectItem\<close>. Its body derives a role, a
  selection flag, an item descriptor builder, a click handler and a hover guard from the
  options of the item and from the shared select state. Each of these closures is
  embedded below as a function of the variables it captures, and \<open>useSelectItem\<close>
  assembles them the way the hook does.
\<close>

subsection \<open>Data\<close>

text \<open>
  A mouse event. The only field the hook reads is \<^verbatim>\<open>defaultPrevented\<close>; everything else
  an event carries lives in the extension of the record, so that the caller's
  predicates may depend on it.
\<close>

record mouse_event =
  defaultPrevented :: bool

text \<open>\<^verbatim>\<open>BooleanOrCallback<E>\<close>: a static boolean, or a predicate over the event.\<close>

datatype 'ev BooleanOrCallback = Boolean bool | Callback "'ev \<Rightarrow> bool"

text \<open>
  The fields of \<^verbatim>\<open>SelectState\<close> that the hook subscribes to. \<^verbatim>\<open>setValue\<close> and \<^verbatim>\<open>hide\<close>
  are methods of the state whose bodies live elsewhere; a call of one of them is
  recorded in a trace of calls, in the order the calls are made.
\<close>

record 'e SelectState =
  state_value :: string
  contentElement :: "'e option"
  mounted :: bool

datatype call = Call_onClick | Call_setValue string | Call_hide

text \<open>
  The item record of the composite registry. The hook touches its \<^verbatim>\<open>value\<close> field only;
  the spread \<^verbatim>\<open>...item\<close> keeps all others, here the extension of the record.
\<close>

record item =
  item_value :: "string option"

text \<open>
  The options destructured by the hook. An optional property that is left out is
  \<open>None\<close>. \<^verbatim>\<open>disabled\<close>, \<^verbatim>\<open>onClick\<close>, \<^verbatim>\<open>role\<close> and \<^verbatim>\<open>children\<close> are the members of the
  rest \<^verbatim>\<open>...props\<close> that the body reads or overrides. For \<^verbatim>\<open>role\<close> and \<^verbatim>\<open>children\<close> the
  spread looks at the key, not at what it holds: \<open>None\<close> is a key that was left out,
  \<open>Some None\<close> a key handed over as \<^verbatim>\<open>undefined\<close>.
\<close>

record ('e, 'm, 'z) SelectItemOptions =
  opt_state :: "'e SelectState option"
  opt_value :: "string option"
  opt_getItem :: "('m item_scheme \<Rightarrow> 'm item_scheme) option"
  opt_hideOnClick :: "'z mouse_event_scheme BooleanOrCallback option"
  opt_setValueOnClick :: "'z mouse_event_scheme BooleanOrCallback option"
  opt_focusOnHover :: "'z mouse_event_scheme BooleanOrCallback option"
  opt_disabled :: "bool option"
  opt_onClick :: "('z mouse_event_scheme \<Rightarrow> 'z mouse_event_scheme) option"
  opt_role :: "string option option"
  opt_children :: "string option option"

text \<open>
  What the hook computes: the properties it sets on the element, the two callbacks it
  hands to the composite item and composite hover hooks, and the value it provides
  through \<^verbatim>\<open>SelectItemCheckedContext\<close>.
\<close>

record ('m, 'z) SelectItemProps =
  prop_role :: "string option"
  prop_children :: "string option"
  prop_onClick :: "'z mouse_event_scheme \<Rightarrow> call list \<Rightarrow> 'z mouse_event_scheme \<times> call list"
  prop_getItem :: "'m item_scheme \<Rightarrow> 'm item_scheme"
  prop_focusOnHover :: "'z mouse_event_scheme \<Rightarrow> bool"
  prop_checked :: bool

subsection \<open>Helpers imported from the utility packages\<close>

text \<open>
  Modelled from the spec: \<^verbatim>\<open>useEventCallback\<close> of \<^verbatim>\<open>ariakit-utils/hooks\<close> is not part of
  this file. The caller's own click handler is wrapped by it; a handler that was not
  supplied does nothing. The handler may mark the event as default-prevented, which is
  all the click dispatcher reads back from it, so it is a function from the event to
  the event after the call, and its run is recorded in the trace.
\<close>

definition useEventCallback ::
  "('ev \<Rightarrow> 'ev) option \<Rightarrow> 'ev \<Rightarrow> call list \<Rightarrow> 'ev \<times> call list" where
  "useEventCallback callback event tr =
     (case callback of
        None \<Rightarrow> (event, tr)
      | Some h \<Rightarrow> (h event, tr @ [Call_onClick]))"

text \<open>
  Modelled from the spec: \<^verbatim>\<open>useBooleanEventCallback\<close> of \<^verbatim>\<open>ariakit-utils/hooks\<close> is not
  part of this file. Both click options accept either a static boolean or a predicate
  over the triggering event, evaluated fresh per event.
\<close>

fun useBooleanEventCallback :: "'ev BooleanOrCallback \<Rightarrow> 'ev \<Rightarrow> bool" where
  "useBooleanEventCallback (Boolean b) event = b"
| "useBooleanEventCallback (Callback f) event = f event"

text \<open>
  Modelled from the spec: \<^verbatim>\<open>useStore\<close> of \<^verbatim>\<open>ariakit-utils/store\<close> is not part of this
  file. An explicit shared-state reference wins; without one the hook falls back to the
  ambient \<^verbatim>\<open>SelectContext\<close> of an ancestor, which may be absent as well.
\<close>

definition useStore :: "'s option \<Rightarrow> 's option \<Rightarrow> 's option" where
  "useStore state SelectContext =
     (case state of Some s \<Rightarrow> Some s | None \<Rightarrow> SelectContext)"

text \<open>\<^verbatim>\<open>state?.setValue(value)\<close> and \<^verbatim>\<open>state?.hide()\<close>: skipped when no state is bound.\<close>

fun state_setValue :: "'e SelectState option \<Rightarrow> string \<Rightarrow> call list \<Rightarrow> call list" where
  "state_setValue None v tr = tr"
| "state_setValue (Some s) v tr = tr @ [Call_setValue v]"

fun state_hide :: "'e SelectState option \<Rightarrow> call list \<Rightarrow> call list" where
  "state_hide None tr = tr"
| "state_hide (Some s) tr = tr @ [Call_hide]"

text \<open>The truth value of \<^verbatim>\<open>props.disabled\<close> in a condition: absent counts as false.\<close>

fun truthy :: "bool option \<Rightarrow> bool" where
  "truthy None = False"
| "truthy (Some b) = b"

subsection \<open>The role resolver\<close>

definition itemRoleByPopupRole :: "(string \<times> string) list" where
  "itemRoleByPopupRole =
     [(''listbox'', ''option''), (''tree'', ''treeitem''), (''grid'', ''gridcell'')]"

text \<open>
  \<^verbatim>\<open>getPopupRole\<close> of \<^verbatim>\<open>ariakit-utils/dom\<close> is not part of this file: it is a parameter.
  It reads the role the popup element was configured with, and answers nothing when
  there is no popup. The table is consulted by the role token it answers (an ARIA role
  name, so never the name of a member that every object inherits); an empty token is
  falsy and leaves by the early return.
\<close>

definition getItemRole :: "('e option \<Rightarrow> string option) \<Rightarrow> 'e option \<Rightarrow> string option" where
  "getItemRole getPopupRole element =
     (case getPopupRole element of
        None \<Rightarrow> None
      | Some popupRole \<Rightarrow>
          if popupRole = [] then None else map_of itemRoleByPopupRole popupRole)"

subsection \<open>The item descriptor builder\<close>

definition getItem ::
  "bool option \<Rightarrow> string option \<Rightarrow> ('m item_scheme \<Rightarrow> 'm item_scheme) option \<Rightarrow>
   'm item_scheme \<Rightarrow> 'm item_scheme" where
  "getItem disabled val getItemProp it =
     (let nextItem = it\<lparr>item_value := (if truthy disabled then None else val)\<rparr> in
      case getItemProp of
        Some f \<Rightarrow> f nextItem
      | None \<Rightarrow> nextItem)"

subsection \<open>The click dispatcher\<close>

definition onClick ::
  "('z mouse_event_scheme \<Rightarrow> call list \<Rightarrow> 'z mouse_event_scheme \<times> call list) \<Rightarrow>
   ('z mouse_event_scheme \<Rightarrow> bool) \<Rightarrow> ('z mouse_event_scheme \<Rightarrow> bool) \<Rightarrow>
   string option \<Rightarrow> 'e SelectState option \<Rightarrow>
   'z mouse_event_scheme \<Rightarrow> call list \<Rightarrow> 'z mouse_event_scheme \<times> call list" where
  "onClick onClickProp setValueOnClickProp hideOnClickProp val state event tr =
     (case onClickProp event tr of
        (event1, tr1) \<Rightarrow>
          if defaultPrevented event1 then (event1, tr1)
          else
            let tr2 =
                  (if setValueOnClickProp event1 \<and> val \<noteq> None
                   then (case val of Some v \<Rightarrow> state_setValue state v tr1 | None \<Rightarrow> tr1)
                   else tr1);
                tr3 = (if hideOnClickProp event1 then state_hide state tr2 else tr2)
            in (event1, tr3))"

subsection \<open>The selection flag\<close>

text \<open>\<^verbatim>\<open>value != null && value === state?.value\<close>\<close>

definition isSelected :: "string option \<Rightarrow> 'e SelectState option \<Rightarrow> bool" where
  "isSelected val state = (val \<noteq> None \<and> val = map_option state_value state)"

subsection \<open>The hover guard\<close>

text \<open>
  The \<^verbatim>\<open>focusOnHover\<close> callback handed to the composite hover hook, which asks it on
  every hover event whether the item may take the focus.
\<close>

definition focusOnHover ::
  "('ev \<Rightarrow> bool) \<Rightarrow> 'e SelectState option \<Rightarrow> 'ev \<Rightarrow> bool" where
  "focusOnHover focusOnHoverProp state event =
     (if \<not> focusOnHoverProp event then False
      else (case state of None \<Rightarrow> False | Some s \<Rightarrow> mounted s))"

subsection \<open>The hook\<close>

text \<open>
  The defaults of the destructuring come first: \<^verbatim>\<open>hideOnClick\<close> and \<^verbatim>\<open>setValueOnClick\<close>
  default to \<^verbatim>\<open>value != null\<close>, \<^verbatim>\<open>focusOnHover\<close> to \<^verbatim>\<open>true\<close>. In the object
  \<^verbatim>\<open>{ role, children: value, ...props, onClick }\<close> the caller's \<^verbatim>\<open>role\<close> and \<^verbatim>\<open>children\<close>
  win over the derived ones whenever the caller names them, also with \<^verbatim>\<open>undefined\<close>, and
  the derived \<^verbatim>\<open>onClick\<close> wins over the caller's.
\<close>

definition useSelectItem ::
  "('e option \<Rightarrow> string option) \<Rightarrow> 'e SelectState option \<Rightarrow>
   ('e, 'm, 'z) SelectItemOptions \<Rightarrow> ('m, 'z) SelectItemProps" where
  "useSelectItem getPopupRole SelectContext opts =
     (let val = opt_value opts;
          hideOnClick =
            (case opt_hideOnClick opts of None \<Rightarrow> Boolean (val \<noteq> None) | Some b \<Rightarrow> b);
          setValueOnClick =
            (case opt_setValueOnClick opts of None \<Rightarrow> Boolean (val \<noteq> None) | Some b \<Rightarrow> b);
          focusOnHoverOpt =
            (case opt_focusOnHover opts of None \<Rightarrow> Boolean True | Some b \<Rightarrow> b);
          state = useStore (opt_state opts) SelectContext;
          disabled = opt_disabled opts;
          onClickProp = useEventCallback (opt_onClick opts);
          setValueOnClickProp = useBooleanEventCallback setValueOnClick;
          hideOnClickProp = useBooleanEventCallback hideOnClick;
          focusOnHoverProp = useBooleanEventCallback focusOnHoverOpt
      in \<lparr> prop_role =
             (case opt_role opts of
                Some r \<Rightarrow> r
              | None \<Rightarrow>
                  getItemRole getPopupRole
                    (case state of None \<Rightarrow> None | Some s \<Rightarrow> contentElement s)),
           prop_children =
             (case opt_children opts of Some c \<Rightarrow> c | None \<Rightarrow> val),
           prop_onClick = onClick onClickProp setValueOnClickProp hideOnClickProp val state,
           prop_getItem = getItem disabled val (opt_getItem opts),
           prop_focusOnHover = focusOnHover focusOnHoverProp state,
           prop_checked = isSelected val state \<rparr>)"

subsection \<open>The items of the documentation's example\<close>

text \<open>
  \<^verbatim>\<open><SelectItem value="Apple" />\<close> with every other option left out, a select state whose
  popup is shown with \<^verbatim>\<open>Orange\<close> selected, and a click nobody has cancelled. The popup
  element stands for the role it was given, so that reading its role is the identity.
\<close>

definition apple :: "(string, unit, unit) SelectItemOptions" where
  "apple =
     \<lparr> opt_state = None, opt_value = Some ''Apple'', opt_getItem = None,
       opt_hideOnClick = None, opt_setValueOnClick = None, opt_focusOnHover = None,
       opt_disabled = None, opt_onClick = None, opt_role = None, opt_children = None \<rparr>"

definition select :: "string SelectState" where
  "select =
     \<lparr> state_value = ''Orange'', contentElement = Some ''listbox'', mounted = True \<rparr>"

definition click :: mouse_event where
  "click = \<lparr> defaultPrevented = False \<rparr>"

definition preventDefault :: "'z mouse_event_scheme \<Rightarrow> 'z mouse_event_scheme" where
  "preventDefault event = event\<lparr>defaultPrevented := True\<rparr>"

section \<open>Properties\<close>

subsection \<open>Unfolding the hook\<close>

lemma prop_checked_useSelectItem:
  "prop_checked (useSelectItem gpr ctx opts) =
     isSelected (opt_value opts) (useStore (opt_state opts) ctx)"
  by (simp add: useSelectItem_def Let_def)

lemma prop_onClick_useSelectItem:
  "prop_onClick (useSelectItem gpr ctx opts) =
     onClick (useEventCallback (opt_onClick opts))
       (useBooleanEventCallback
          (case opt_setValueOnClick opts of
             None \<Rightarrow> Boolean (opt_value opts \<noteq> None) | Some b \<Rightarrow> b))
       (useBooleanEventCallback
          (case opt_hideOnClick opts of
             None \<Rightarrow> Boolean (opt_value opts \<noteq> None) | Some b \<Rightarrow> b))
       (opt_value opts) (useStore (opt_state opts) ctx)"
  by (simp add: useSelectItem_def Let_def)

lemma prop_getItem_useSelectItem:
  "prop_getItem (useSelectItem gpr ctx opts) =
     getItem (opt_disabled opts) (opt_value opts) (opt_getItem opts)"
  by (simp add: useSelectItem_def Let_def)

lemma prop_focusOnHover_useSelectItem:
  "prop_focusOnHover (useSelectItem gpr ctx opts) =
     focusOnHover
       (useBooleanEventCallback
          (case opt_focusOnHover opts of None \<Rightarrow> Boolean True | Some b \<Rightarrow> b))
       (useStore (opt_state opts) ctx)"
  by (simp add: useSelectItem_def Let_def)

lemma onClick_prevented:
  assumes "onClickProp event tr = (ev, tr')" and "defaultPrevented ev"
  shows "onClick onClickProp setProp hideProp val state event tr = (ev, tr')"
  using assms by (simp add: onClick_def)

lemma onClick_proceeds:
  assumes "onClickProp event tr = (ev, tr')" and "\<not> defaultPrevented ev"
  shows "onClick onClickProp setProp hideProp val state event tr =
     (ev,
      (let tr2 = (case val of
                    Some v \<Rightarrow> if setProp ev then state_setValue state v tr' else tr'
                  | None \<Rightarrow> tr')
       in if hideProp ev then state_hide state tr2 else tr2))"
  using assms by (cases val) (simp_all add: onClick_def Let_def)

lemma useEventCallback_cases:
  "useEventCallback None event tr = (event, tr)"
  "useEventCallback (Some h) event tr = (h event, tr @ [Call_onClick])"
  by (simp_all add: useEventCallback_def)

subsection \<open>The role resolver\<close>

text \<open>
  C3. The role of the item is a function of the role the popup was configured with, and
  of nothing else: \<^verbatim>\<open>listbox\<close> gives \<^verbatim>\<open>option\<close>, \<^verbatim>\<open>tree\<close> gives \<^verbatim>\<open>treeitem\<close>, \<^verbatim>\<open>grid\<close> gives
  \<^verbatim>\<open>gridcell\<close>, and every other popup role, or none, gives no role at all.
\<close>

theorem getItemRole_table:
  "(gpr el = Some ''listbox'' \<longrightarrow> getItemRole gpr el = Some ''option'') \<and>
   (gpr el = Some ''tree'' \<longrightarrow> getItemRole gpr el = Some ''treeitem'') \<and>
   (gpr el = Some ''grid'' \<longrightarrow> getItemRole gpr el = Some ''gridcell'') \<and>
   (gpr el \<notin> {Some ''listbox'', Some ''tree'', Some ''grid''} \<longrightarrow>
      getItemRole gpr el = None) \<and>
   (gpr el = gpr' el' \<longrightarrow> getItemRole gpr el = getItemRole gpr' el')"
  by (cases "gpr el") (simp_all add: getItemRole_def itemRoleByPopupRole_def)

theorem getItemRole_table_witness:
  "getItemRole (\<lambda>el. el) (Some ''listbox'') = Some ''option'' \<and>
   getItemRole (\<lambda>el. el) (Some ''tree'') = Some ''treeitem'' \<and>
   getItemRole (\<lambda>el. el) (Some ''grid'') = Some ''gridcell'' \<and>
   getItemRole (\<lambda>el. el) (Some ''menu'') = None \<and>
   getItemRole (\<lambda>el. el) None = None \<and>
   getItemRole (\<lambda>el. el) (contentElement select) = getItemRole (\<lambda>el. el) (Some ''listbox'')"
proof -
  have el: "contentElement select = Some ''listbox''"
    by (simp add: select_def)
  show ?thesis
    using getItemRole_table [of "\<lambda>el. el" "Some ''listbox''" "\<lambda>el. el" "contentElement select"]
      getItemRole_table [of "\<lambda>el. el" "Some ''tree''" "\<lambda>el. el" None]
      getItemRole_table [of "\<lambda>el. el" "Some ''grid''" "\<lambda>el. el" None]
      getItemRole_table [of "\<lambda>el. el" "Some ''menu''" "\<lambda>el. el" None]
      getItemRole_table [of "\<lambda>el. el" None "\<lambda>el. el" None]
    by (simp add: el)
qed

subsection \<open>The selection flag\<close>

text \<open>
  C4. The selection flag is true exactly when the configured value is present and equal
  to the value of the shared state; with an absent configured value it is false,
  whatever the shared state holds.
\<close>

theorem isSelected_iff:
  "isSelected val state =
     (\<exists>v s. val = Some v \<and> state = Some s \<and> state_value s = v)
   \<and> isSelected None state = False"
  by (cases val; cases state) (auto simp: isSelected_def)

text \<open>
  C10. The disabled flag has no part in the selection flag: whatever \<^verbatim>\<open>disabled\<close> is set
  to, the value provided through the checked context is the same. A disabled item whose
  configured value is the value of the shared state is selected, while the record its
  descriptor is built from has the value cleared.
\<close>

theorem isSelected_ignores_disabled:
  "prop_checked (useSelectItem gpr ctx (opts\<lparr>opt_disabled := d\<rparr>)) =
     prop_checked (useSelectItem gpr ctx opts) \<and>
   (opt_disabled opts = Some True \<and> opt_value opts = Some v \<and>
    useStore (opt_state opts) ctx = Some s \<and> state_value s = v \<longrightarrow>
      prop_checked (useSelectItem gpr ctx opts) \<and>
      prop_getItem (useSelectItem gpr ctx opts) it =
        (case opt_getItem opts of
           None \<Rightarrow> it\<lparr>item_value := None\<rparr>
         | Some f \<Rightarrow> f (it\<lparr>item_value := None\<rparr>)))"
  by (simp add: prop_checked_useSelectItem prop_getItem_useSelectItem isSelected_def
      getItem_def Let_def split: option.splits)

theorem isSelected_ignores_disabled_witness:
  "prop_checked
     (useSelectItem (\<lambda>el. el) None
        (apple\<lparr>opt_state := Some (select\<lparr>state_value := ''Apple''\<rparr>),
               opt_disabled := Some True\<rparr>)) \<and>
   item_value
     (prop_getItem
        (useSelectItem (\<lambda>el. el) None
           (apple\<lparr>opt_state := Some (select\<lparr>state_value := ''Apple''\<rparr>),
                  opt_disabled := Some True\<rparr>))
        \<lparr>item_value = Some ''Pear''\<rparr>) = None"
proof -
  let ?opts = "apple\<lparr>opt_state := Some (select\<lparr>state_value := ''Apple''\<rparr>),
                      opt_disabled := Some True\<rparr>"
  have h: "opt_disabled ?opts = Some True \<and> opt_value ?opts = Some ''Apple'' \<and>
      useStore (opt_state ?opts) None = Some (select\<lparr>state_value := ''Apple''\<rparr>) \<and>
      state_value (select\<lparr>state_value := ''Apple''\<rparr>) = ''Apple''"
    by (simp add: apple_def useStore_def)
  have g: "opt_getItem ?opts = None"
    by (simp add: apple_def)
  from isSelected_ignores_disabled
    [where gpr = "\<lambda>el. el" and ctx = None and opts = ?opts and d = "Some True"
       and v = "''Apple''" and s = "select\<lparr>state_value := ''Apple''\<rparr>"
       and it = "\<lparr>item_value = Some ''Pear''\<rparr>"] h g
  show ?thesis by simp
qed

subsection \<open>The item descriptor builder\<close>

text \<open>
  C5. Without a custom transform the descriptor is the base record with its value field
  set to the configured value, or cleared when the item is disabled, whatever value was
  configured; every other field of the base record is kept. With a custom transform the
  descriptor is the transform applied to that adjusted record.
\<close>

theorem getItem_descriptor:
  "(disabled = Some True \<longrightarrow> item_value (getItem disabled val None it) = None) \<and>
   (disabled \<noteq> Some True \<longrightarrow> item_value (getItem disabled val None it) = val) \<and>
   item.more (getItem disabled val None it) = item.more it \<and>
   getItem disabled val (Some f) it = f (getItem disabled val None it)"
  by (cases disabled) (simp_all add: getItem_def)

theorem getItem_descriptor_witness:
  "item_value (getItem (Some True) (Some ''Apple'') None \<lparr>item_value = Some ''Pear''\<rparr>) = None \<and>
   item_value (getItem (Some False) (Some ''Apple'') None \<lparr>item_value = Some ''Pear''\<rparr>) =
     Some ''Apple'' \<and>
   getItem (Some True) (Some ''Apple'') (Some (\<lambda>i. i\<lparr>item_value := Some ''Fig''\<rparr>))
     \<lparr>item_value = Some ''Pear''\<rparr> = \<lparr>item_value = Some ''Fig''\<rparr>"
proof -
  have a: "item_value (getItem (Some True) (Some ''Apple'') None \<lparr>item_value = Some ''Pear''\<rparr>) = None"
    using getItem_descriptor
      [of "Some True" "Some ''Apple''" "\<lparr>item_value = Some ''Pear''\<rparr>" "\<lambda>i. i"]
    by simp
  have b: "item_value (getItem (Some False) (Some ''Apple'') None \<lparr>item_value = Some ''Pear''\<rparr>) =
      Some ''Apple''"
    using getItem_descriptor
      [of "Some False" "Some ''Apple''" "\<lparr>item_value = Some ''Pear''\<rparr>" "\<lambda>i. i"]
    by simp
  have c: "getItem (Some True) (Some ''Apple'') (Some (\<lambda>i. i\<lparr>item_value := Some ''Fig''\<rparr>))
      \<lparr>item_value = Some ''Pear''\<rparr> = \<lparr>item_value = Some ''Fig''\<rparr>"
    using getItem_descriptor
      [of "Some True" "Some ''Apple''" "\<lparr>item_value = Some ''Pear''\<rparr>"
          "\<lambda>i. i\<lparr>item_value := Some ''Fig''\<rparr>"]
    by (simp add: getItem_def)
  from a b c show ?thesis by simp
qed

subsection \<open>The hover guard\<close>

text \<open>
  C8. On a hover event the guard handed to the composite hover hook allows the focus to
  move exactly when the configured \<^verbatim>\<open>focusOnHover\<close> option (true when left out) holds for
  the event and the popup of the bound state is mounted. With the popup not mounted, or
  no state bound, the guard refuses even though the option holds.
\<close>

theorem focusOnHover_mounted:
  "prop_focusOnHover (useSelectItem gpr ctx opts) event =
     (useBooleanEventCallback
        (case opt_focusOnHover opts of None \<Rightarrow> Boolean True | Some b \<Rightarrow> b) event \<and>
      (\<exists>s. useStore (opt_state opts) ctx = Some s \<and> mounted s)) \<and>
   (useStore (opt_state opts) ctx = Some s \<and> \<not> mounted s \<longrightarrow>
      \<not> prop_focusOnHover (useSelectItem gpr ctx opts) event)"
  by (cases "useStore (opt_state opts) ctx")
    (simp_all add: prop_focusOnHover_useSelectItem focusOnHover_def)

theorem focusOnHover_mounted_witness:
  "prop_focusOnHover
     (useSelectItem (\<lambda>el. el) None
        (apple\<lparr>opt_state := Some select, opt_focusOnHover := Some (Callback (\<lambda>e. True))\<rparr>))
     click \<and>
   \<not> prop_focusOnHover
     (useSelectItem (\<lambda>el. el) None
        (apple\<lparr>opt_state := Some (select\<lparr>mounted := False\<rparr>),
               opt_focusOnHover := Some (Callback (\<lambda>e. True))\<rparr>))
     click"
proof -
  let ?on = "apple\<lparr>opt_state := Some select, opt_focusOnHover := Some (Callback (\<lambda>e. True))\<rparr>"
  let ?off = "apple\<lparr>opt_state := Some (select\<lparr>mounted := False\<rparr>),
                     opt_focusOnHover := Some (Callback (\<lambda>e. True))\<rparr>"
  have on: "useStore (opt_state ?on) None = Some select \<and> mounted select"
    by (simp add: useStore_def select_def)
  have off: "useStore (opt_state ?off) None = Some (select\<lparr>mounted := False\<rparr>) \<and>
      \<not> mounted (select\<lparr>mounted := False\<rparr>)"
    by (simp add: useStore_def)
  from focusOnHover_mounted [of "\<lambda>el. el" None ?on click select] on
    focusOnHover_mounted [of "\<lambda>el. el" None ?off click "select\<lparr>mounted := False\<rparr>"] off
  show ?thesis by simp
qed

subsection \<open>The click dispatcher\<close>

text \<open>
  C1, as the code has it. On an item that is not disabled, with a configured value and
  both click options left at their defaults, and with a shared state bound, a click that
  is not default-prevented once the caller's handler has run makes the dispatcher call
  \<^verbatim>\<open>setValue\<close> with the configured value and then \<^verbatim>\<open>hide\<close>, once each and in that
  order, after whatever the caller's handler did.
\<close>

theorem onClick_setValue_then_hide:
  assumes "opt_value opts = Some v" and "\<not> truthy (opt_disabled opts)"
    and "opt_setValueOnClick opts = None" and "opt_hideOnClick opts = None"
    and "useStore (opt_state opts) ctx = Some s"
    and "useEventCallback (opt_onClick opts) event tr = (ev, tr')"
    and "\<not> defaultPrevented ev"
  shows "prop_onClick (useSelectItem gpr ctx opts) event tr =
     (ev, tr' @ [Call_setValue v, Call_hide])"
  using assms(1,3-7)
  by (simp add: prop_onClick_useSelectItem onClick_proceeds [where ev = ev and tr' = tr'])

theorem onClick_setValue_then_hide_witness:
  "prop_onClick
     (useSelectItem (\<lambda>el. el) None
        (apple\<lparr>opt_state := Some select, opt_disabled := Some False\<rparr>)) click [] =
     (click, [Call_setValue ''Apple'', Call_hide]) \<and>
   prop_onClick
     (useSelectItem (\<lambda>el. el) (Some select) (apple\<lparr>opt_onClick := Some (\<lambda>e. e)\<rparr>)) click [] =
     (click, [Call_onClick, Call_setValue ''Apple'', Call_hide])"
proof -
  let ?a = "apple\<lparr>opt_state := Some select, opt_disabled := Some False\<rparr>"
  let ?b = "apple\<lparr>opt_onClick := Some (\<lambda>e. e)\<rparr>"
  have a: "prop_onClick (useSelectItem (\<lambda>el. el) None ?a) click [] =
      (click, [] @ [Call_setValue ''Apple'', Call_hide])"
    by (rule onClick_setValue_then_hide [where s = select])
      (simp_all add: apple_def useStore_def useEventCallback_def click_def)
  have b: "prop_onClick (useSelectItem (\<lambda>el. el) (Some select) ?b) click [] =
      (click, [Call_onClick] @ [Call_setValue ''Apple'', Call_hide])"
    by (rule onClick_setValue_then_hide [where s = select])
      (simp_all add: apple_def useStore_def useEventCallback_def click_def)
  from a b show ?thesis by simp
qed

text \<open>
  C1 does not hold without the bound state. The documentation's item, rendered with no
  state of its own and no select around it, takes the click and calls neither
  \<^verbatim>\<open>setValue\<close> nor \<^verbatim>\<open>hide\<close>: both calls go through \<^verbatim>\<open>state?.\<close> and are skipped.
\<close>

theorem onClick_setValue_then_hide_counterexample:
  "opt_value apple = Some ''Apple'' \<and> opt_disabled apple \<noteq> Some True \<and>
   opt_setValueOnClick apple = None \<and> opt_hideOnClick apple = None \<and>
   opt_onClick apple = None \<and> \<not> defaultPrevented click \<and>
   prop_onClick (useSelectItem (\<lambda>el. el) None apple) click [] = (click, [])"
  by (simp add: apple_def click_def prop_onClick_useSelectItem onClick_def
      useEventCallback_def useStore_def)

text \<open>
  C2. A caller's click handler is the first thing the dispatcher runs, on the event as
  it arrived. When the handler leaves the event default-prevented the dispatcher stops
  there: nothing but the handler's run is in the trace, whatever \<^verbatim>\<open>setValueOnClick\<close> and
  \<^verbatim>\<open>hideOnClick\<close> are configured to and whatever state is bound.
\<close>

theorem onClick_default_prevented:
  assumes "opt_onClick opts = Some h"
  shows "fst (prop_onClick (useSelectItem gpr ctx opts) event []) = h event \<and>
     take 1 (snd (prop_onClick (useSelectItem gpr ctx opts) event [])) = [Call_onClick] \<and>
     (defaultPrevented (h event) \<longrightarrow>
        snd (prop_onClick (useSelectItem gpr ctx opts) event []) = [Call_onClick])"
proof -
  have cb: "useEventCallback (opt_onClick opts) event [] = (h event, [] @ [Call_onClick])"
    using assms by (simp add: useEventCallback_cases)
  show ?thesis
  proof (cases "defaultPrevented (h event)")
    case True
    with cb show ?thesis
      by (simp add: prop_onClick_useSelectItem onClick_prevented)
  next
    case False
    with cb show ?thesis
      by (cases "opt_value opts"; cases "useStore (opt_state opts) ctx")
        (simp_all add: prop_onClick_useSelectItem onClick_proceeds Let_def)
  qed
qed

theorem onClick_default_prevented_witness:
  "prop_onClick
     (useSelectItem (\<lambda>el. el) None
        (apple\<lparr>opt_state := Some select, opt_onClick := Some preventDefault,
               opt_setValueOnClick := Some (Boolean True),
               opt_hideOnClick := Some (Callback (\<lambda>e. True))\<rparr>))
     click [] = (preventDefault click, [Call_onClick])"
proof -
  let ?opts = "apple\<lparr>opt_state := Some select, opt_onClick := Some preventDefault,
      opt_setValueOnClick := Some (Boolean True),
      opt_hideOnClick := Some (Callback (\<lambda>e. True))\<rparr>"
  have h: "opt_onClick ?opts = Some preventDefault"
    by simp
  have p: "defaultPrevented (preventDefault click)"
    by (simp add: preventDefault_def)
  from onClick_default_prevented [OF h, of "\<lambda>el. el" None click] p
  show ?thesis by (simp add: prod_eq_iff)
qed

text \<open>
  C6. With neither click option overridden, both are the constant predicate "a value is
  configured". On an item without a configured value the dispatcher therefore does what
  the caller's handler does and nothing more: neither \<^verbatim>\<open>setValue\<close> nor \<^verbatim>\<open>hide\<close> is called.
\<close>

theorem onClick_without_value:
  assumes "opt_setValueOnClick opts = None" and "opt_hideOnClick opts = None"
  shows "prop_onClick (useSelectItem gpr ctx opts) =
       onClick (useEventCallback (opt_onClick opts))
         (\<lambda>e. opt_value opts \<noteq> None) (\<lambda>e. opt_value opts \<noteq> None)
         (opt_value opts) (useStore (opt_state opts) ctx) \<and>
     (opt_value opts = None \<longrightarrow>
        prop_onClick (useSelectItem gpr ctx opts) event tr =
          useEventCallback (opt_onClick opts) event tr)"
proof -
  have sv: "useBooleanEventCallback (Boolean (opt_value opts \<noteq> None)) =
      (\<lambda>e. opt_value opts \<noteq> None)"
    by (rule ext) (simp only: useBooleanEventCallback.simps)
  have unfolded: "prop_onClick (useSelectItem gpr ctx opts) =
      onClick (useEventCallback (opt_onClick opts))
        (\<lambda>e. opt_value opts \<noteq> None) (\<lambda>e. opt_value opts \<noteq> None)
        (opt_value opts) (useStore (opt_state opts) ctx)"
    unfolding prop_onClick_useSelectItem assms option.case sv ..
  have "prop_onClick (useSelectItem gpr ctx opts) event tr =
      useEventCallback (opt_onClick opts) event tr" if "opt_value opts = None"
    unfolding unfolded using that
    by (cases "useEventCallback (opt_onClick opts) event tr") (simp add: onClick_def)
  with unfolded show ?thesis
    by blast
qed

theorem onClick_without_value_witness:
  "prop_onClick
     (useSelectItem (\<lambda>el. el) None
        (apple\<lparr>opt_value := None, opt_state := Some select, opt_onClick := Some (\<lambda>e. e)\<rparr>))
     click [] = (click, [Call_onClick])"
proof -
  let ?opts = "apple\<lparr>opt_value := None, opt_state := Some select, opt_onClick := Some (\<lambda>e. e)\<rparr>"
  have h: "opt_setValueOnClick ?opts = None" "opt_hideOnClick ?opts = None"
    by (simp_all add: apple_def)
  have v: "opt_value ?opts = None"
    by simp
  from onClick_without_value [OF h, THEN conjunct2, of "\<lambda>el. el" None click "[]"] v
  show ?thesis by (simp add: useEventCallback_cases)
qed

text \<open>
  C7. With no shared state bound, neither given to the item nor found in the context,
  the dispatcher returns what the caller's handler returns and calls nothing, whatever
  the click options and the configured value are.
\<close>

theorem onClick_unbound_state:
  assumes "useStore (opt_state opts) ctx = None"
  shows "prop_onClick (useSelectItem gpr ctx opts) event tr =
     useEventCallback (opt_onClick opts) event tr"
  using assms
  by (cases "useEventCallback (opt_onClick opts) event tr"; cases "opt_value opts")
    (simp_all add: prop_onClick_useSelectItem onClick_def)

theorem onClick_unbound_state_witness:
  "prop_onClick
     (useSelectItem (\<lambda>el. el) None
        (apple\<lparr>opt_onClick := Some (\<lambda>e. e), opt_setValueOnClick := Some (Boolean True),
               opt_hideOnClick := Some (Boolean True)\<rparr>))
     click [] = (click, [Call_onClick])"
proof -
  let ?opts = "apple\<lparr>opt_onClick := Some (\<lambda>e. e), opt_setValueOnClick := Some (Boolean True),
      opt_hideOnClick := Some (Boolean True)\<rparr>"
  have h: "useStore (opt_state ?opts) None = None"
    by (simp add: apple_def useStore_def)
  from onClick_unbound_state [OF h, of "\<lambda>el. el" click "[]"]
  show ?thesis by (simp add: useEventCallback_cases)
qed

text \<open>
  C9. On a click that is not default-prevented once the caller's handler has run, with a
  shared state bound, \<^verbatim>\<open>hide\<close> is called once when the \<^verbatim>\<open>hideOnClick\<close> predicate holds for
  the event and not at all otherwise, whatever \<^verbatim>\<open>setValueOnClick\<close> and the configured
  value are. An item without a value whose \<^verbatim>\<open>hideOnClick\<close> is set to true hides the
  popup and selects nothing.
\<close>

theorem onClick_hide_iff:
  assumes "useStore (opt_state opts) ctx = Some s"
    and "useEventCallback (opt_onClick opts) event [] = (ev, tr')"
    and "\<not> defaultPrevented ev"
  shows "count_list (snd (prop_onClick (useSelectItem gpr ctx opts) event [])) Call_hide =
       (if useBooleanEventCallback
             (case opt_hideOnClick opts of
                None \<Rightarrow> Boolean (opt_value opts \<noteq> None) | Some b \<Rightarrow> b) ev
        then 1 else 0) \<and>
     (opt_value opts = None \<and> opt_hideOnClick opts = Some (Boolean True) \<longrightarrow>
        snd (prop_onClick (useSelectItem gpr ctx opts) event []) = tr' @ [Call_hide])"
proof -
  have tr': "count_list tr' Call_hide = 0"
    using assms(2) by (cases "opt_onClick opts") (auto simp: useEventCallback_def)
  from assms tr' show ?thesis
    by (cases "opt_value opts")
      (simp_all add: prop_onClick_useSelectItem onClick_proceeds [where ev = ev and tr' = tr'])
qed

theorem onClick_hide_iff_witness:
  "prop_onClick
     (useSelectItem (\<lambda>el. el) (Some select)
        (apple\<lparr>opt_value := None, opt_hideOnClick := Some (Boolean True)\<rparr>))
     click [] = (click, [Call_hide]) \<and>
   count_list
     (snd (prop_onClick
        (useSelectItem (\<lambda>el. el) (Some select)
           (apple\<lparr>opt_hideOnClick := Some (Callback defaultPrevented)\<rparr>))
        click [])) Call_hide = 0"
proof -
  let ?a = "apple\<lparr>opt_value := None, opt_hideOnClick := Some (Boolean True)\<rparr>"
  let ?b = "apple\<lparr>opt_hideOnClick := Some (Callback defaultPrevented)\<rparr>"
  have s: "useStore (opt_state ?a) (Some select) = Some select"
    "useStore (opt_state ?b) (Some select) = Some select"
    by (simp_all add: apple_def useStore_def)
  have e: "useEventCallback (opt_onClick ?a) click [] = (click, [])"
    "useEventCallback (opt_onClick ?b) click [] = (click, [])"
    by (simp_all add: apple_def useEventCallback_cases)
  have p: "\<not> defaultPrevented click"
    by (simp add: click_def)
  have v: "opt_value ?a = None \<and> opt_hideOnClick ?a = Some (Boolean True)"
    by simp
  have a: "snd (prop_onClick (useSelectItem (\<lambda>el. el) (Some select) ?a) click []) = [Call_hide]"
    using onClick_hide_iff [OF s(1) e(1) p, of "\<lambda>el. el"] v by simp
  have a': "fst (prop_onClick (useSelectItem (\<lambda>el. el) (Some select) ?a) click []) = click"
    using e(1) p by (simp add: prop_onClick_useSelectItem onClick_proceeds [where ev = click and tr' = "[]"])
  have b: "count_list (snd (prop_onClick (useSelectItem (\<lambda>el. el) (Some select) ?b) click []))
      Call_hide = 0"
    using onClick_hide_iff [OF s(2) e(2) p, of "\<lambda>el. el"] p by simp
  from a a' b show ?thesis by (simp add: prod_eq_iff)
qed

end
